theory Spec2Isabelle
  imports
    Complex_Main
    "HOL-Library.AList"
    "HOL-Library.Product_Lexorder"
    "HOL-Library.Sublist"
begin

section \<open>Python strings\<close>

text \<open>
  A Python \<open>str\<close> is modelled as a \<^typ>\<open>string\<close> whose characters are the code points
  0 to 255. The character classes below are those of Python 3 on that range:
  \<open>str.isspace\<close> (also used by \<open>str.strip()\<close>, \<open>str.split()\<close> and the
  regular expression class \<open>\s\<close>), \<open>str.isdecimal\<close> (the class \<open>\d\<close>),
  \<open>str.isdigit\<close> (which also accepts the superscripts U+00B2, U+00B3, U+00B9),
  \<open>str.isalpha\<close> and \<open>str.isalnum\<close> (the class \<open>\w\<close> is \<open>isalnum\<close> or an underscore).
\<close>

definition isspace :: "char \<Rightarrow> bool" where
  "isspace c = (let n = (of_char c :: nat) in
     (9 \<le> n \<and> n \<le> 13) \<or> (28 \<le> n \<and> n \<le> 32) \<or> n = 133 \<or> n = 160)"

definition isdecimal :: "char \<Rightarrow> bool" where
  "isdecimal c = (let n = (of_char c :: nat) in 48 \<le> n \<and> n \<le> 57)"

definition isdigit :: "char \<Rightarrow> bool" where
  "isdigit c = (let n = (of_char c :: nat) in
     (48 \<le> n \<and> n \<le> 57) \<or> n = 178 \<or> n = 179 \<or> n = 185)"

definition isnumeric :: "char \<Rightarrow> bool" where
  "isnumeric c = (let n = (of_char c :: nat) in
     isdigit c \<or> n = 188 \<or> n = 189 \<or> n = 190)"

definition isalpha :: "char \<Rightarrow> bool" where
  "isalpha c = (let n = (of_char c :: nat) in
     (65 \<le> n \<and> n \<le> 90) \<or> (97 \<le> n \<and> n \<le> 122) \<or> n = 170 \<or> n = 181 \<or> n = 186 \<or>
     (192 \<le> n \<and> n \<le> 214) \<or> (216 \<le> n \<and> n \<le> 246) \<or> (248 \<le> n \<and> n \<le> 255))"

definition isalnum :: "char \<Rightarrow> bool" where
  "isalnum c = (isalpha c \<or> isdecimal c \<or> isdigit c \<or> isnumeric c)"

text \<open>\<open>s.isdigit()\<close> and \<open>s.isalnum()\<close> on a whole string: false on the empty string.\<close>

definition str_isdigit :: "string \<Rightarrow> bool" where
  "str_isdigit s = (s \<noteq> [] \<and> list_all isdigit s)"

definition str_isalnum :: "string \<Rightarrow> bool" where
  "str_isalnum s = (s \<noteq> [] \<and> list_all isalnum s)"

text \<open>\<open>sub in s\<close>: \<open>sub\<close> occurs in \<open>s\<close> as a contiguous substring.\<close>

fun str_in :: "string \<Rightarrow> string \<Rightarrow> bool" where
  "str_in sub [] = (sub = [])"
| "str_in sub (c # cs) = (prefix sub (c # cs) \<or> str_in sub cs)"

text \<open>\<open>s.startswith(p)\<close>.\<close>

definition startswith :: "string \<Rightarrow> string \<Rightarrow> bool" where
  "startswith s p = prefix p s"

text \<open>\<open>s.strip()\<close>: leading and trailing whitespace removed.\<close>

definition strip :: "string \<Rightarrow> string" where
  "strip s = rev (dropWhile isspace (rev (dropWhile isspace s)))"

text \<open>\<open>s.replace(old, new)\<close> for a one-character \<open>old\<close>, the only use in the program.\<close>

definition replace :: "char \<Rightarrow> string \<Rightarrow> string \<Rightarrow> string" where
  "replace old new s = concat (map (\<lambda>c. if c = old then new else [c]) s)"

text \<open>
  \<open>s.split(sep)\<close> for a one-character separator: every occurrence separates, empty
  pieces are kept, and the empty string gives one empty piece.
\<close>

fun split_sep :: "char \<Rightarrow> string \<Rightarrow> string list" where
  "split_sep sep [] = [[]]"
| "split_sep sep (c # cs) =
     (if c = sep then [] # split_sep sep cs
      else (case split_sep sep cs of
              [] \<Rightarrow> [[c]]
            | p # ps \<Rightarrow> (c # p) # ps))"

text \<open>\<open>s.split()\<close>: the maximal runs of non-whitespace characters, in order.\<close>

function split_ws :: "string \<Rightarrow> string list" where
  "split_ws [] = []"
| "split_ws (c # cs) =
     (if isspace c then split_ws cs
      else takeWhile (\<lambda>x. \<not> isspace x) (c # cs)
             # split_ws (dropWhile (\<lambda>x. \<not> isspace x) cs))"
  by pat_completeness auto
termination
  by (relation "measure length") (auto simp: less_Suc_eq_le length_dropWhile_le)

text \<open>The newline character, and \<open>text.split("\n")\<close>.\<close>

definition newline :: char where
  "newline = CHR 0x0A"

definition split_lines :: "string \<Rightarrow> string list" where
  "split_lines text = split_sep newline text"

text \<open>The apostrophe, one of the two thousands separators.\<close>

definition apostrophe :: char where
  "apostrophe = CHR 0x27"

section \<open>Records and exceptions\<close>

text \<open>
  A record of the program is a Python dict from field names to strings, modelled as
  the association list of its items in insertion order. The exceptions
  that the modelled code can raise are values of \<open>exn\<close>; \<open>PdfError\<close> stands for any
  exception raised by the PDF library, with its message.
\<close>

type_synonym pyrecord = "(string \<times> string) list"

datatype exn = KeyError string | PdfError string

text \<open>\<open>d.get(key, default)\<close>.\<close>

definition dict_get :: "pyrecord \<Rightarrow> string \<Rightarrow> string \<Rightarrow> string" where
  "dict_get d k dflt = (case map_of d k of Some v \<Rightarrow> v | None \<Rightarrow> dflt)"

text \<open>\<open>d[key]\<close>, which raises \<open>KeyError\<close> on a missing key.\<close>

definition dict_item :: "pyrecord \<Rightarrow> string \<Rightarrow> exn + string" where
  "dict_item d k = (case map_of d k of Some v \<Rightarrow> Inr v | None \<Rightarrow> Inl (KeyError k))"

text \<open>\<open>xs[i]\<close> inside a \<open>try\<close> whose handler catches \<open>IndexError\<close>: \<open>None\<close> is the raise.\<close>

definition list_item :: "'a list \<Rightarrow> nat \<Rightarrow> 'a option" where
  "list_item xs i = (if i < length xs then Some (xs ! i) else None)"

section \<open>The vested-stocks scanner\<close>

text \<open>
  \<open>extract_vested_stocks_from_text\<close>. The loop carries \<open>in_vested_section\<close>,
  \<open>header_line_count\<close> and the list \<open>vested_stocks\<close>; \<open>break\<close> returns the list as it is.
  \<open>vested_row\<close> is the body that parses one data line: the \<open>try\<close> block reads
  \<open>parts[2]\<close> and \<open>parts[5]\<close>, and its handler skips the line.
\<close>

definition vested_row :: "string \<Rightarrow> pyrecord option" where
  "vested_row line =
     (let parts = split_ws line in
      if length parts \<ge> 6 then
        (case (list_item parts 2, list_item parts 5) of
           (Some vest_date, Some shares) \<Rightarrow>
             if str_in ''.'' vest_date \<and> length (split_sep (CHR ''.'') vest_date) = 3
             then Some [(''Vest Date'', vest_date), (''Shares'', shares)]
             else None
         | _ \<Rightarrow> None)
      else None)"

definition is_vested_start :: "string \<Rightarrow> bool" where
  "is_vested_start line = (str_in ''Vested Stocks'' line \<and> str_in ''2024'' line)"

definition is_vested_header :: "string \<Rightarrow> bool" where
  "is_vested_header line =
     ((str_in ''Award'' line \<and> str_in ''Date'' line) \<or> str_in ''Date Date Price'' line)"

definition is_total_line :: "string \<Rightarrow> bool" where
  "is_total_line line =
     str_isdigit (replace (CHR '' '') [] (replace apostrophe [] (replace (CHR ''.'') [] (strip line))))"

fun vested_loop :: "bool \<Rightarrow> nat \<Rightarrow> pyrecord list \<Rightarrow> string list \<Rightarrow> pyrecord list" where
  "vested_loop in_vested_section header_line_count vested_stocks [] = vested_stocks"
| "vested_loop in_vested_section header_line_count vested_stocks (line # lines) =
     (if is_vested_start line then
        vested_loop True header_line_count vested_stocks lines
      else if str_in ''ESPP'' line then
        vested_stocks
      else if in_vested_section \<and> strip line \<noteq> [] then
        (if is_vested_header line then
           vested_loop in_vested_section (header_line_count + 1) vested_stocks lines
         else if is_total_line line then
           vested_loop in_vested_section header_line_count vested_stocks lines
         else
           (case vested_row line of
              Some r \<Rightarrow> vested_loop in_vested_section header_line_count (vested_stocks @ [r]) lines
            | None \<Rightarrow> vested_loop in_vested_section header_line_count vested_stocks lines))
      else vested_loop in_vested_section header_line_count vested_stocks lines)"

definition extract_vested_stocks_from_text :: "string \<Rightarrow> pyrecord list" where
  "extract_vested_stocks_from_text text = vested_loop False 0 [] (split_lines text)"

section \<open>Numbers\<close>

text \<open>
  Python floats are modelled as real numbers: arithmetic is exact, and the rounding of
  IEEE 754 doubles is outside the model. \<open>py_float\<close> is \<open>float(s)\<close> for a string:
  \<open>None\<close> is the \<open>ValueError\<close>. It follows the grammar of the language reference
  (surrounding whitespace, an optional sign, digits with single underscores between
  them, an optional fraction and an optional exponent). The spellings \<open>inf\<close>,
  \<open>infinity\<close> and \<open>nan\<close>, which Python also accepts, denote no real number and are
  rejected here.
\<close>

fun digitpart :: "string \<Rightarrow> bool" where
  "digitpart [] = False"
| "digitpart [c] = isdecimal c"
| "digitpart (c # d # cs) =
     (isdecimal c \<and> (if d = CHR ''_'' then digitpart cs else digitpart (d # cs)))"

definition digit_value :: "char \<Rightarrow> nat" where
  "digit_value c = of_char c - 48"

definition digits_value :: "string \<Rightarrow> nat" where
  "digits_value s = foldl (\<lambda>n c. 10 * n + digit_value c) 0 (filter isdecimal s)"

definition parse_number :: "string \<Rightarrow> real option" where
  "parse_number s =
     (let ip = takeWhile (\<lambda>c. c \<noteq> CHR ''.'') s;
          r = dropWhile (\<lambda>c. c \<noteq> CHR ''.'') s
      in case r of
           [] \<Rightarrow> if digitpart ip then Some (real (digits_value ip)) else None
         | _ # fp \<Rightarrow>
             if (ip = [] \<and> digitpart fp) \<or> (digitpart ip \<and> (fp = [] \<or> digitpart fp))
             then Some (real (digits_value ip)
                        + real (digits_value fp) / 10 ^ length (filter isdecimal fp))
             else None)"

definition parse_exponent :: "string \<Rightarrow> int option" where
  "parse_exponent s =
     (case s of
        [] \<Rightarrow> None
      | c # cs \<Rightarrow>
          if c = CHR ''-'' then (if digitpart cs then Some (- int (digits_value cs)) else None)
          else if c = CHR ''+'' then (if digitpart cs then Some (int (digits_value cs)) else None)
          else if digitpart s then Some (int (digits_value s)) else None)"

definition parse_floatnumber :: "string \<Rightarrow> real option" where
  "parse_floatnumber s =
     (let m = takeWhile (\<lambda>c. c \<noteq> CHR ''e'' \<and> c \<noteq> CHR ''E'') s;
          r = dropWhile (\<lambda>c. c \<noteq> CHR ''e'' \<and> c \<noteq> CHR ''E'') s
      in case r of
           [] \<Rightarrow> parse_number m
         | _ # ex \<Rightarrow>
             (case (parse_number m, parse_exponent ex) of
                (Some v, Some k) \<Rightarrow>
                  Some (if k < 0 then v / 10 ^ nat (- k) else v * 10 ^ nat k)
              | _ \<Rightarrow> None))"

definition py_float :: "string \<Rightarrow> real option" where
  "py_float s =
     (case strip s of
        [] \<Rightarrow> None
      | c # cs \<Rightarrow>
          if c = CHR ''-'' then map_option uminus (parse_floatnumber cs)
          else if c = CHR ''+'' then parse_floatnumber cs
          else parse_floatnumber (c # cs))"

section \<open>Aggregation\<close>

text \<open>
  A dict with float values, in insertion order: an association list with distinct keys.
  \<^const>\<open>AList.update\<close> overwrites the value of a key that is present, in place, and
  appends a new key at the end, as assignment to a Python dict does.

  \<open>aggregate_by_date\<close>: the loop carries \<open>date_quantities\<close>; a \<open>ValueError\<close> of
  \<open>float\<close> is caught and the transaction is skipped.
\<close>

type_synonym pydict = "(string \<times> real) list"

fun aggregate_loop :: "pydict \<Rightarrow> pyrecord list \<Rightarrow> pydict" where
  "aggregate_loop date_quantities [] = date_quantities"
| "aggregate_loop date_quantities (transaction # data) =
     (let date_sold = dict_get transaction ''Date sold or transferred'' [];
          quantity_str = dict_get transaction ''Quantity'' ''0''
      in case py_float quantity_str of
           None \<Rightarrow> aggregate_loop date_quantities data
         | Some quantity \<Rightarrow>
             (case map_of date_quantities date_sold of
                Some v \<Rightarrow>
                  aggregate_loop (AList.update date_sold (v + quantity) date_quantities) data
              | None \<Rightarrow>
                  aggregate_loop (AList.update date_sold quantity date_quantities) data))"

definition aggregate_by_date :: "pyrecord list \<Rightarrow> pydict" where
  "aggregate_by_date data = aggregate_loop [] data"

text \<open>
  The aggregation of \<open>display_vested_results\<close> (\<open>date_shares\<close>): the fields are read
  with \<open>entry[...]\<close>, and the thousands separators comma and apostrophe are removed
  before \<open>float\<close>.
\<close>

definition clean_number :: "string \<Rightarrow> string" where
  "clean_number s = replace apostrophe [] (replace (CHR '','') [] s)"

fun date_shares_loop :: "pydict \<Rightarrow> pyrecord list \<Rightarrow> exn + pydict" where
  "date_shares_loop date_shares [] = Inr date_shares"
| "date_shares_loop date_shares (entry # vested_stocks) =
     (case dict_item entry ''Vest Date'' of
        Inl e \<Rightarrow> Inl e
      | Inr vest_date \<Rightarrow>
          (case dict_item entry ''Shares'' of
             Inl e \<Rightarrow> Inl e
           | Inr shares \<Rightarrow>
               (case py_float (clean_number shares) of
                  None \<Rightarrow> date_shares_loop date_shares vested_stocks
                | Some shares_float \<Rightarrow>
                    (case map_of date_shares vest_date of
                       Some v \<Rightarrow>
                         date_shares_loop
                           (AList.update vest_date (v + shares_float) date_shares) vested_stocks
                     | None \<Rightarrow>
                         date_shares_loop
                           (AList.update vest_date shares_float date_shares) vested_stocks))))"

section \<open>The ESPP scanner\<close>

text \<open>\<open>extract_espp_from_text\<close>, in the same way as the vested-stocks scanner.\<close>

definition espp_row :: "string \<Rightarrow> pyrecord option" where
  "espp_row line =
     (let parts = split_ws line in
      if length parts \<ge> 2 then
        (case (list_item parts 0, list_item parts 1) of
           (Some off_period, Some purchased_shares) \<Rightarrow>
             if str_isdigit off_period \<or>
                (str_isalnum off_period \<and> str_isdigit (replace (CHR ''.'') [] purchased_shares))
             then Some [(''Off Period'', off_period), (''Purchased Shares'', purchased_shares)]
             else None
         | _ \<Rightarrow> None)
      else None)"

definition is_espp_start :: "string \<Rightarrow> bool" where
  "is_espp_start line = str_in ''ESPP (Employee Stock Purchase Plan)'' line"

definition is_espp_end :: "string \<Rightarrow> bool" where
  "is_espp_end line = (str_in ''Total amount'' line \<or> str_in ''Page'' line)"

definition is_espp_header :: "string \<Rightarrow> bool" where
  "is_espp_header line =
     ((str_in ''Off Period'' line \<and> str_in ''Purchased'' line) \<or> str_in ''Shares Price'' line)"

fun espp_loop :: "bool \<Rightarrow> nat \<Rightarrow> pyrecord list \<Rightarrow> string list \<Rightarrow> pyrecord list" where
  "espp_loop in_espp_section header_line_count espp_data [] = espp_data"
| "espp_loop in_espp_section header_line_count espp_data (line # lines) =
     (if is_espp_start line then
        espp_loop True header_line_count espp_data lines
      else if in_espp_section \<and> is_espp_end line then
        espp_data
      else if in_espp_section \<and> strip line \<noteq> [] then
        (if is_espp_header line then
           espp_loop in_espp_section (header_line_count + 1) espp_data lines
         else if startswith (strip line) ''CHF'' then
           espp_loop in_espp_section header_line_count espp_data lines
         else
           (case espp_row line of
              Some r \<Rightarrow> espp_loop in_espp_section header_line_count (espp_data @ [r]) lines
            | None \<Rightarrow> espp_loop in_espp_section header_line_count espp_data lines))
      else espp_loop in_espp_section header_line_count espp_data lines)"

definition extract_espp_from_text :: "string \<Rightarrow> pyrecord list" where
  "extract_espp_from_text text = espp_loop False 0 [] (split_lines text)"

section \<open>Sale transactions\<close>

text \<open>
  \<open>extract_transactions_from_text\<close> searches each line for the pattern
  \<^verbatim>\<open>(\w{3}-\d{2}-\d{4})\s+(\w{3}-\d{2}-\d{4})\s+([\d.]+)\s+\$[\d,.]+\<close>.
  \<open>match_here\<close> is a match of the pattern at the start of a string and returns the
  groups 1 and 3. The greedy repetitions never need to give a character back: a run
  matched by \<open>\s+\<close> is followed by a word character, a digit, a point or a dollar sign,
  none of which is whitespace, and the run matched by \<open>[\d.]+\<close> is followed by
  whitespace; so each repetition takes its maximal run. \<open>re_search\<close> tries the start
  positions from left to right, as \<open>re.search\<close> does.
\<close>

definition is_word :: "char \<Rightarrow> bool" where
  "is_word c = (isalnum c \<or> c = CHR ''_'')"

definition match_date :: "string \<Rightarrow> (string \<times> string) option" where
  "match_date s =
     (case s of
        w1 # w2 # w3 # h1 # d1 # d2 # h2 # y1 # y2 # y3 # y4 # rest \<Rightarrow>
          if is_word w1 \<and> is_word w2 \<and> is_word w3 \<and> h1 = CHR ''-'' \<and>
             isdecimal d1 \<and> isdecimal d2 \<and> h2 = CHR ''-'' \<and>
             isdecimal y1 \<and> isdecimal y2 \<and> isdecimal y3 \<and> isdecimal y4
          then Some (take 11 s, rest)
          else None
      | _ \<Rightarrow> None)"

definition match_spaces :: "string \<Rightarrow> string option" where
  "match_spaces s =
     (case s of
        [] \<Rightarrow> None
      | c # cs \<Rightarrow> if isspace c then Some (dropWhile isspace cs) else None)"

definition is_quantity_char :: "char \<Rightarrow> bool" where
  "is_quantity_char c = (isdecimal c \<or> c = CHR ''.'')"

definition is_amount_char :: "char \<Rightarrow> bool" where
  "is_amount_char c = (isdecimal c \<or> c = CHR '','' \<or> c = CHR ''.'')"

definition match_amount :: "string \<Rightarrow> bool" where
  "match_amount s =
     (case s of
        c # a # _ \<Rightarrow> c = CHR ''$'' \<and> is_amount_char a
      | _ \<Rightarrow> False)"

definition match_here :: "string \<Rightarrow> (string \<times> string) option" where
  "match_here s =
     (case match_date s of
        None \<Rightarrow> None
      | Some (date_sold, r1) \<Rightarrow>
     (case match_spaces r1 of
        None \<Rightarrow> None
      | Some r2 \<Rightarrow>
     (case match_date r2 of
        None \<Rightarrow> None
      | Some (date_acquired, r3) \<Rightarrow>
     (case match_spaces r3 of
        None \<Rightarrow> None
      | Some r4 \<Rightarrow>
          (let quantity = takeWhile is_quantity_char r4;
               r5 = dropWhile is_quantity_char r4
           in if quantity = [] then None
              else (case match_spaces r5 of
                      None \<Rightarrow> None
                    | Some r6 \<Rightarrow> if match_amount r6 then Some (date_sold, quantity) else None))))))"

fun re_search :: "string \<Rightarrow> (string \<times> string) option" where
  "re_search [] = match_here []"
| "re_search (c # cs) =
     (case match_here (c # cs) of
        Some groups \<Rightarrow> Some groups
      | None \<Rightarrow> re_search cs)"

fun transactions_loop :: "pyrecord list \<Rightarrow> string list \<Rightarrow> pyrecord list" where
  "transactions_loop transactions [] = transactions"
| "transactions_loop transactions (line # lines) =
     (case re_search line of
        Some (date_sold, quantity) \<Rightarrow>
          transactions_loop
            (transactions @ [[(''Date sold or transferred'', date_sold), (''Quantity'', quantity)]])
            lines
      | None \<Rightarrow> transactions_loop transactions lines)"

definition extract_transactions_from_text :: "string \<Rightarrow> pyrecord list" where
  "extract_transactions_from_text text = transactions_loop [] (split_lines text)"

section \<open>Dates and the display order\<close>

text \<open>
  A \<open>datetime\<close> at midnight is its year, month and day, ordered lexicographically.
  \<open>strptime_b_d_Y\<close> is \<open>datetime.strptime(s, "%b-%d-%Y")\<close> and \<open>strptime_d_m_Y\<close> is
  \<open>datetime.strptime(s, "%d.%m.%Y")\<close>, in the C locale; \<open>None\<close> is the \<open>ValueError\<close>.
  The directives are those of the standard library: \<open>%b\<close> an abbreviated month name
  in any letter case, \<open>%d\<close> one of \<open>3[0-1]\<close>, \<open>[1-2]\d\<close>, \<open>0[1-9]\<close>, \<open>[1-9]\<close> or a space
  and \<open>[1-9]\<close>, \<open>%m\<close> one of \<open>1[0-2]\<close>, \<open>0[1-9]\<close>, \<open>[1-9]\<close>, \<open>%Y\<close> four digits; the
  whole string has to match, the year is at least 1 and the day exists in the month.
\<close>

type_synonym datetime = "nat \<times> nat \<times> nat"

definition to_lower :: "char \<Rightarrow> char" where
  "to_lower c = (let n = (of_char c :: nat) in if 65 \<le> n \<and> n \<le> 90 then char_of (n + 32) else c)"

definition month_abbr :: "string list" where
  "month_abbr = [''jan'', ''feb'', ''mar'', ''apr'', ''may'', ''jun'',
                 ''jul'', ''aug'', ''sep'', ''oct'', ''nov'', ''dec'']"

fun index_of :: "string \<Rightarrow> string list \<Rightarrow> nat option" where
  "index_of x [] = None"
| "index_of x (y # ys) = (if x = y then Some 0 else map_option Suc (index_of x ys))"

definition directive_b :: "string \<Rightarrow> nat option" where
  "directive_b s = map_option Suc (index_of (map to_lower s) month_abbr)"

definition nonzero_digit :: "char \<Rightarrow> bool" where
  "nonzero_digit c = (isdecimal c \<and> c \<noteq> CHR ''0'')"

definition directive_d :: "string \<Rightarrow> nat option" where
  "directive_d s =
     (case s of
        [a] \<Rightarrow> if nonzero_digit a then Some (digit_value a) else None
      | [a, b] \<Rightarrow>
          if a = CHR ''3'' \<and> (b = CHR ''0'' \<or> b = CHR ''1'') then Some (30 + digit_value b)
          else if (a = CHR ''1'' \<or> a = CHR ''2'') \<and> isdecimal b
            then Some (10 * digit_value a + digit_value b)
          else if (a = CHR ''0'' \<or> a = CHR '' '') \<and> nonzero_digit b then Some (digit_value b)
          else None
      | _ \<Rightarrow> None)"

definition directive_m :: "string \<Rightarrow> nat option" where
  "directive_m s =
     (case s of
        [a] \<Rightarrow> if nonzero_digit a then Some (digit_value a) else None
      | [a, b] \<Rightarrow>
          if a = CHR ''1'' \<and> (b = CHR ''0'' \<or> b = CHR ''1'' \<or> b = CHR ''2'')
            then Some (10 + digit_value b)
          else if a = CHR ''0'' \<and> nonzero_digit b then Some (digit_value b)
          else None
      | _ \<Rightarrow> None)"

definition directive_Y :: "string \<Rightarrow> nat option" where
  "directive_Y s = (if length s = 4 \<and> list_all isdecimal s then Some (digits_value s) else None)"

definition is_leap :: "nat \<Rightarrow> bool" where
  "is_leap y = (y mod 4 = 0 \<and> (y mod 100 \<noteq> 0 \<or> y mod 400 = 0))"

definition days_in_month :: "nat \<Rightarrow> nat \<Rightarrow> nat" where
  "days_in_month y m =
     (if m = 2 then (if is_leap y then 29 else 28)
      else if m = 4 \<or> m = 6 \<or> m = 9 \<or> m = 11 then 30 else 31)"

definition make_datetime :: "nat option \<Rightarrow> nat option \<Rightarrow> nat option \<Rightarrow> datetime option" where
  "make_datetime year month day =
     (case (year, month, day) of
        (Some y, Some m, Some d) \<Rightarrow>
          if 1 \<le> y \<and> d \<le> days_in_month y m then Some (y, m, d) else None
      | _ \<Rightarrow> None)"

definition strptime_b_d_Y :: "string \<Rightarrow> datetime option" where
  "strptime_b_d_Y s =
     (case split_sep (CHR ''-'') s of
        [b, d, y] \<Rightarrow> make_datetime (directive_Y y) (directive_b b) (directive_d d)
      | _ \<Rightarrow> None)"

definition strptime_d_m_Y :: "string \<Rightarrow> datetime option" where
  "strptime_d_m_Y s =
     (case split_sep (CHR ''.'') s of
        [d, m, y] \<Rightarrow> make_datetime (directive_Y y) (directive_m m) (directive_d d)
      | _ \<Rightarrow> None)"

text \<open>
  The local functions \<open>parse_date\<close> of \<open>display_results\<close> and \<open>parse_vest_date\<close> of
  \<open>display_vested_results\<close>, and the list \<open>sorted_dates\<close> that \<open>display_results\<close>
  prints row by row. Python's \<open>sorted\<close> is stable, as \<^const>\<open>sort_key\<close> is.
\<close>

definition parse_date :: "string \<Rightarrow> datetime" where
  "parse_date date_str =
     (case strptime_b_d_Y date_str of Some dt \<Rightarrow> dt | None \<Rightarrow> (1900, 1, 1))"

definition parse_vest_date :: "string \<Rightarrow> datetime" where
  "parse_vest_date date_str =
     (case strptime_d_m_Y date_str of Some dt \<Rightarrow> dt | None \<Rightarrow> (1900, 1, 1))"

definition sorted_dates :: "pyrecord list \<Rightarrow> pydict" where
  "sorted_dates data = sort_key (\<lambda>x. parse_date (fst x)) (aggregate_by_date data)"

section \<open>The summary\<close>

text \<open>\<open>display_summary\<close>: the label and the number of the net-position line it prints.\<close>

datatype net_position = Remaining | Oversold

definition display_summary :: "real \<Rightarrow> real \<Rightarrow> real \<Rightarrow> net_position \<times> real" where
  "display_summary total_vested total_purchased total_sold =
     (let difference = (total_vested + total_purchased) - total_sold
      in if difference \<ge> 0 then (Remaining, difference) else (Oversold, \<bar>difference\<bar>))"

section \<open>Reading the PDF files\<close>

text \<open>
  The PDF library is the collaborator. What it delivers for a file is a value of
  \<open>pdf\<close>: \<open>pdfplumber.open\<close> (with the access to \<open>pdf.pages\<close>) raises, or gives the
  pages; \<open>page.extract_text()\<close> raises, or gives the text of the page or \<open>None\<close>.
  A function of the program that can let an exception out returns \<open>exn + 'a\<close>.
  Printing and logging are left out.
\<close>

type_synonym page = "exn + string option"

type_synonym pdf = "exn + page list"

text \<open>
  \<open>extract_table_from_pdf\<close>: the handler logs the exception and raises it again.
\<close>

fun table_pages_loop :: "pyrecord list \<Rightarrow> page list \<Rightarrow> exn + pyrecord list" where
  "table_pages_loop all_transactions [] = Inr all_transactions"
| "table_pages_loop all_transactions (page # pages) =
     (case page of
        Inl e \<Rightarrow> Inl e
      | Inr None \<Rightarrow> table_pages_loop all_transactions pages
      | Inr (Some page_text) \<Rightarrow>
          if page_text \<noteq> [] then
            table_pages_loop (all_transactions @ extract_transactions_from_text page_text) pages
          else table_pages_loop all_transactions pages)"

definition extract_table_from_pdf :: "pdf \<Rightarrow> exn + pyrecord list" where
  "extract_table_from_pdf pdf_file =
     (case pdf_file of
        Inl e \<Rightarrow> Inl e
      | Inr pages \<Rightarrow> table_pages_loop [] pages)"

text \<open>
  \<open>extract_vested_data\<close> joins the text of all pages and runs both scanners on it.
  It has no handler.
\<close>

fun all_text_loop :: "string \<Rightarrow> page list \<Rightarrow> exn + string" where
  "all_text_loop all_text [] = Inr all_text"
| "all_text_loop all_text (page # pages) =
     (case page of
        Inl e \<Rightarrow> Inl e
      | Inr None \<Rightarrow> all_text_loop all_text pages
      | Inr (Some text) \<Rightarrow>
          if text \<noteq> [] then all_text_loop (all_text @ text @ [newline]) pages
          else all_text_loop all_text pages)"

record vested_data =
  vested_stocks_of :: "pyrecord list"
  espp_data_of :: "pyrecord list"

definition extract_vested_data :: "pdf \<Rightarrow> exn + vested_data" where
  "extract_vested_data pdf_file =
     (case pdf_file of
        Inl e \<Rightarrow> Inl e
      | Inr pages \<Rightarrow>
          (case all_text_loop [] pages of
             Inl e \<Rightarrow> Inl e
           | Inr all_text \<Rightarrow>
               Inr \<lparr>vested_stocks_of = extract_vested_stocks_from_text all_text,
                    espp_data_of = extract_espp_from_text all_text\<rparr>))"

text \<open>
  \<open>read_sold_shares\<close>. \<open>path_exists\<close> is \<open>Path(pdf_path).exists()\<close>. The \<open>try\<close> block
  is \<open>sold_shares_try\<close>; its handler \<open>except Exception\<close> catches every exception of
  \<open>exn\<close>, prints it and returns \<open>0.0\<close>. \<open>display_results\<close> raises nothing.
\<close>

fun total_sold_loop :: "real \<Rightarrow> pyrecord list \<Rightarrow> real" where
  "total_sold_loop total_sold [] = total_sold"
| "total_sold_loop total_sold (transaction # transactions) =
     (case py_float (dict_get transaction ''Quantity'' ''0'') of
        Some quantity \<Rightarrow> total_sold_loop (total_sold + quantity) transactions
      | None \<Rightarrow> total_sold_loop total_sold transactions)"

definition sold_shares_try :: "pdf \<Rightarrow> exn + real" where
  "sold_shares_try pdf_file =
     (case extract_table_from_pdf pdf_file of
        Inl e \<Rightarrow> Inl e
      | Inr transactions \<Rightarrow>
          if transactions \<noteq> [] then Inr (total_sold_loop 0 transactions) else Inr 0)"

definition read_sold_shares :: "bool \<Rightarrow> pdf \<Rightarrow> exn + real" where
  "read_sold_shares path_exists pdf_file =
     (if \<not> path_exists then Inr 0
      else (case sold_shares_try pdf_file of
              Inl e \<Rightarrow> Inr 0
            | Inr total_sold \<Rightarrow> Inr total_sold))"

text \<open>
  \<open>display_vested_results\<close> computes the rows it prints: the aggregated vested shares
  in the order of their dates, and the total of the purchased shares. Its reads
  \<open>entry[...]\<close> can raise \<open>KeyError\<close>.
\<close>

fun espp_display_loop :: "real \<Rightarrow> pyrecord list \<Rightarrow> exn + real" where
  "espp_display_loop total_purchased [] = Inr total_purchased"
| "espp_display_loop total_purchased (entry # espp_data) =
     (case dict_item entry ''Off Period'' of
        Inl e \<Rightarrow> Inl e
      | Inr off_period \<Rightarrow>
          (case dict_item entry ''Purchased Shares'' of
             Inl e \<Rightarrow> Inl e
           | Inr purchased_shares \<Rightarrow>
               (case py_float (clean_number purchased_shares) of
                  Some v \<Rightarrow> espp_display_loop (total_purchased + v) espp_data
                | None \<Rightarrow> espp_display_loop total_purchased espp_data)))"

definition display_vested_results :: "vested_data \<Rightarrow> exn + pydict \<times> real" where
  "display_vested_results data =
     (case (if vested_stocks_of data \<noteq> [] then date_shares_loop [] (vested_stocks_of data)
            else Inr []) of
        Inl e \<Rightarrow> Inl e
      | Inr date_shares \<Rightarrow>
          (case (if espp_data_of data \<noteq> [] then espp_display_loop 0 (espp_data_of data)
                 else Inr 0) of
             Inl e \<Rightarrow> Inl e
           | Inr total_purchased \<Rightarrow>
               Inr (sort_key (\<lambda>x. parse_vest_date (fst x)) date_shares, total_purchased)))"

text \<open>
  \<open>read_vested_data\<close>: the two totals are summed over \<open>entry["Shares"]\<close> and
  \<open>entry["Purchased Shares"]\<close>; the \<open>try\<close> block is \<open>vested_data_try\<close>, and the handler
  \<open>except Exception\<close> returns \<open>(0.0, 0.0)\<close>.
\<close>

fun total_shares_loop :: "string \<Rightarrow> real \<Rightarrow> pyrecord list \<Rightarrow> exn + real" where
  "total_shares_loop field acc [] = Inr acc"
| "total_shares_loop field acc (entry # entries) =
     (case dict_item entry field of
        Inl e \<Rightarrow> Inl e
      | Inr v \<Rightarrow>
          (case py_float (clean_number v) of
             Some shares \<Rightarrow> total_shares_loop field (acc + shares) entries
           | None \<Rightarrow> total_shares_loop field acc entries))"

definition vested_data_try :: "pdf \<Rightarrow> exn + real \<times> real" where
  "vested_data_try pdf_file =
     (case extract_vested_data pdf_file of
        Inl e \<Rightarrow> Inl e
      | Inr data \<Rightarrow>
          if vested_stocks_of data \<noteq> [] \<or> espp_data_of data \<noteq> [] then
            (case display_vested_results data of
               Inl e \<Rightarrow> Inl e
             | Inr _ \<Rightarrow>
                 (case total_shares_loop ''Shares'' 0 (vested_stocks_of data) of
                    Inl e \<Rightarrow> Inl e
                  | Inr total_vested \<Rightarrow>
                      (case total_shares_loop ''Purchased Shares'' 0 (espp_data_of data) of
                         Inl e \<Rightarrow> Inl e
                       | Inr total_purchased \<Rightarrow> Inr (total_vested, total_purchased))))
          else Inr (0, 0))"

definition read_vested_data :: "bool \<Rightarrow> pdf \<Rightarrow> exn + real \<times> real" where
  "read_vested_data path_exists pdf_file =
     (if \<not> path_exists then Inr (0, 0)
      else (case vested_data_try pdf_file of
              Inl e \<Rightarrow> Inr (0, 0)
            | Inr totals \<Rightarrow> Inr totals))"

text \<open>
  The first exception the collaborator raises while a file is opened and its pages
  are read in order, if it raises one.
\<close>

fun first_page_failure :: "page list \<Rightarrow> exn option" where
  "first_page_failure [] = None"
| "first_page_failure (page # pages) =
     (case page of Inl e \<Rightarrow> Some e | Inr _ \<Rightarrow> first_page_failure pages)"

definition pdf_failure :: "pdf \<Rightarrow> exn option" where
  "pdf_failure pdf_file =
     (case pdf_file of Inl e \<Rightarrow> Some e | Inr pages \<Rightarrow> first_page_failure pages)"

section \<open>Notions of the specification and inputs of the scenarios\<close>

text \<open>
  The quantity and the date that \<open>aggregate_by_date\<close> reads from a transaction, and
  the transactions whose quantity string parses as a number.
\<close>

definition quantity_of :: "pyrecord \<Rightarrow> real option" where
  "quantity_of transaction = py_float (dict_get transaction ''Quantity'' ''0'')"

definition date_of :: "pyrecord \<Rightarrow> string" where
  "date_of transaction = dict_get transaction ''Date sold or transferred'' []"

definition parseable_records :: "pyrecord list \<Rightarrow> pyrecord list" where
  "parseable_records data = filter (\<lambda>t. quantity_of t \<noteq> None) data"

text \<open>The quantities that parse among the transactions of one date, in the order of the list.\<close>

definition quantities_on :: "string \<Rightarrow> pyrecord list \<Rightarrow> real list" where
  "quantities_on k data =
     map (\<lambda>t. the (quantity_of t)) (filter (\<lambda>t. date_of t = k) (parseable_records data))"

text \<open>
  A pure-numeric line in the words of the specification: the line is not blank, and
  what is left of it once the given separator characters are removed is digits only.
\<close>

definition reduces_to_digits :: "string \<Rightarrow> string \<Rightarrow> bool" where
  "reduces_to_digits separators line =
     (strip line \<noteq> [] \<and> list_all isdigit (filter (\<lambda>c. c \<notin> set separators) (strip line)))"

text \<open>\<open>"\n".join(lines)\<close>, to write the input texts line by line.\<close>

fun join_lines :: "string list \<Rightarrow> string" where
  "join_lines [] = []"
| "join_lines [l] = l"
| "join_lines (l # m # ls) = l @ [newline] @ join_lines (m # ls)"

text \<open>The text of scenario A and the sale line of scenario C.\<close>

definition scenario_a_text :: string where
  "scenario_a_text =
     join_lines [''Vested Stocks 2024'', ''Award Date Award ID Date Price'',
       ''01.03.2022 AB123 15.03.2024 10.00 1500.00 150'', ''Total 150'']"

definition sale_line :: string where
  "sale_line = ''Jan-16-2024 Jun-01-2020 3.0000 $549.75 $1,175.99 + $626.24 USD DO''"


text \<open>
  A vested-stocks section with two rows, and the same section with a row of three
  tokens, with a row whose date has no points, and with a total line between the rows.
\<close>

definition section_top :: "string list" where
  "section_top =
     [''Vested Stocks 2024'', ''Award Date Award ID Date Price'',
      ''01.03.2022 AB123 15.03.2024 10.00 1500.00 150'']"

definition section_bottom :: "string list" where
  "section_bottom = [''01.06.2022 AB124 15.06.2024 10.00 2500.00 250'', ''Total 400'']"



definition swiss_total_line :: string where
  "swiss_total_line = ''1'' @ [apostrophe] @ ''500.00 150''"

definition two_rows_text :: string where
  "two_rows_text = join_lines (section_top @ section_bottom)"



definition swiss_total_text :: string where
  "swiss_total_text = join_lines (section_top @ swiss_total_line # section_bottom)"

text \<open>
  Two lines that are digits only once commas, apostrophes, points and spaces are
  removed: one with commas, and one made of apostrophes, points and spaces alone.
\<close>

definition comma_total_line :: string where
  "comma_total_line = ''1,000 2,000 1.2.3 4 5 6''"

definition separators_only_line :: string where
  "separators_only_line =
     [apostrophe, CHR '' '', apostrophe, CHR '' '',
      apostrophe, CHR ''.'', apostrophe, CHR ''.'', apostrophe, CHR '' '',
      apostrophe, CHR '' '', apostrophe, CHR '' '', apostrophe]"

text \<open>
  Texts with both sections: the ESPP marker before the vested-stocks section, the
  vested-stocks section before the ESPP section, an ESPP section with its closing
  line, the vested-stocks section after an unclosed ESPP section, and a line that
  carries both markers.
\<close>

definition espp_first_text :: string where
  "espp_first_text =
     join_lines [''Salary certificate'', ''ESPP (Employee Stock Purchase Plan)'',
       ''Vested Stocks 2024'', ''Award Date Award ID Date Price'',
       ''01.03.2022 AB123 15.03.2024 10.00 1500.00 150'']"





text \<open>A file whose second page cannot be read, and a file that cannot be opened.\<close>

definition second_page_fails :: pdf where
  "second_page_fails = Inr [Inr (Some sale_line), Inl (PdfError ''page 2'')]"

definition cannot_open :: pdf where
  "cannot_open = Inl (PdfError ''cannot open'')"

text \<open>Two sale lines: a sale of the year 1800, and one whose month is no month.\<close>

definition unsorted_sales_text :: string where
  "unsorted_sales_text =
     join_lines [''Jan-01-1800 Jan-01-1799 1.0 $10.00'', ''Foo-01-2024 Jan-01-2020 2.0 $10.00'']"

section \<open>Scenario A: one vested row\<close>

text \<open>
  Claim C2. The text of scenario A splits into its four lines; the vested-stocks
  scanner returns exactly the record with vest date 15.03.2024 and 150 shares; and
  the aggregation by vest date of \<open>display_vested_results\<close> gives the single entry
  that maps 15.03.2024 to 150.
\<close>

theorem scenario_a:
  "split_lines scenario_a_text =
     [''Vested Stocks 2024'', ''Award Date Award ID Date Price'',
      ''01.03.2022 AB123 15.03.2024 10.00 1500.00 150'', ''Total 150'']
   \<and> extract_vested_stocks_from_text scenario_a_text =
     [[(''Vest Date'', ''15.03.2024''), (''Shares'', ''150'')]]
   \<and> date_shares_loop [] (extract_vested_stocks_from_text scenario_a_text) =
     Inr [(''15.03.2024'', 150)]"
  by code_simp

section \<open>The net position\<close>

text \<open>
  Claim C3. With net = (vested + purchased) - sold: when net is not negative the
  summary line is labelled Remaining and shows net; when net is negative it is
  labelled Oversold and shows the absolute value of net.
\<close>

theorem display_summary_net:
  "(0 \<le> (v + p) - s \<longrightarrow> display_summary v p s = (Remaining, (v + p) - s)) \<and>
   ((v + p) - s < 0 \<longrightarrow> display_summary v p s = (Oversold, \<bar>(v + p) - s\<bar>))"
  by (simp add: display_summary_def Let_def)

text \<open>The two cases of the summary scenario: 30 remaining, and 40 oversold.\<close>

theorem display_summary_net_witness:
  "display_summary 100 20 90 = (Remaining, 30) \<and> display_summary 50 0 90 = (Oversold, 40)"
  using display_summary_net [of 100 20 90] display_summary_net [of 50 0 90] by simp

section \<open>Scenario C: a sale line\<close>

lemma transactions_loop_append:
  "transactions_loop acc (xs @ ys) = transactions_loop (transactions_loop acc xs) ys"
  by (induction xs arbitrary: acc) (auto split: option.splits)

lemma transactions_loop_prefix:
  "\<exists>rs. transactions_loop acc ls = acc @ rs"
proof (induction ls arbitrary: acc)
  case Nil
  show ?case by simp
next
  case (Cons l ls)
  show ?case
  proof (cases "re_search l")
    case None
    with Cons show ?thesis by simp
  next
    case (Some g)
    obtain d q where g: "g = (d, q)" by (cases g)
    obtain rs where "transactions_loop
        (acc @ [[(''Date sold or transferred'', d), (''Quantity'', q)]]) ls
      = (acc @ [[(''Date sold or transferred'', d), (''Quantity'', q)]]) @ rs"
      using Cons by blast
    then show ?thesis by (simp add: Some g)
  qed
qed

lemma transactions_loop_mem:
  assumes "l \<in> set ls" and "re_search l = Some (d, q)"
  shows "[(''Date sold or transferred'', d), (''Quantity'', q)] \<in> set (transactions_loop acc ls)"
proof -
  from assms(1) obtain xs ys where ls: "ls = xs @ l # ys"
    by (auto simp: in_set_conv_decomp)
  define a where "a = transactions_loop acc xs"
  obtain rs where "transactions_loop (a @ [[(''Date sold or transferred'', d), (''Quantity'', q)]]) ys
      = (a @ [[(''Date sold or transferred'', d), (''Quantity'', q)]]) @ rs"
    using transactions_loop_prefix by blast
  then show ?thesis
    using assms(2) by (simp add: ls transactions_loop_append a_def)
qed

lemma re_search_sale_line:
  "re_search sale_line = Some (''Jan-16-2024'', ''3.0000'')"
  by code_simp

text \<open>
  Claim C8. For every text one of whose lines is the sale line of scenario C, the
  sale-transaction extractor produces the record with the first date of the line,
  Jan-16-2024, as the date sold and the decimal token 3.0000 as the quantity.
\<close>

theorem sale_line_record:
  assumes "sale_line \<in> set (split_lines text)"
  shows "[(''Date sold or transferred'', ''Jan-16-2024''), (''Quantity'', ''3.0000'')]
           \<in> set (extract_transactions_from_text text)"
  unfolding extract_transactions_from_text_def
  using assms re_search_sale_line by (rule transactions_loop_mem)

text \<open>The text that is the sale line alone gives exactly that record.\<close>

theorem sale_line_record_witness:
  "sale_line \<in> set (split_lines sale_line) \<and>
   extract_transactions_from_text sale_line =
     [[(''Date sold or transferred'', ''Jan-16-2024''), (''Quantity'', ''3.0000'')]]"
proof -
  have a: "split_lines sale_line = [sale_line]" by code_simp
  have b: "extract_transactions_from_text sale_line =
     [[(''Date sold or transferred'', ''Jan-16-2024''), (''Quantity'', ''3.0000'')]]" by code_simp
  have c: "sale_line \<in> set (split_lines sale_line)" by (simp add: a)
  from sale_line_record [OF c] b c show ?thesis by simp
qed

section \<open>Aggregation preserves the total\<close>






text \<open>
  Each entry of the dict is the sum, taken from left to right as the loop adds them,
  of the quantities that parse among the transactions of its date; a date with no
  such transaction has no entry.
\<close>

lemma aggregate_loop_entry:
  "map_of (aggregate_loop d data) k =
     (case map_of d k of
        Some v \<Rightarrow> Some (foldl (+) v (quantities_on k data))
      | None \<Rightarrow>
          (case quantities_on k data of
             [] \<Rightarrow> None
           | q # qs \<Rightarrow> Some (foldl (+) q qs)))"
proof (induction data arbitrary: d)
  case Nil
  show ?case by (simp add: quantities_on_def parseable_records_def split: option.splits)
next
  case (Cons t data)
  show ?case
  proof (cases "quantity_of t")
    case None
    then have qs: "quantities_on k (t # data) = quantities_on k data"
      by (simp add: quantities_on_def parseable_records_def)
    have "aggregate_loop d (t # data) = aggregate_loop d data"
      using None by (simp add: quantity_of_def)
    then show ?thesis
      unfolding qs using Cons [of d] by simp
  next
    case (Some q)
    have step: "aggregate_loop d (t # data) =
        aggregate_loop
          (AList.update (date_of t)
             (case map_of d (date_of t) of Some v \<Rightarrow> v + q | None \<Rightarrow> q) d) data"
      using Some by (simp add: quantity_of_def date_of_def split: option.splits)
    have qs: "quantities_on k (t # data) =
        (if date_of t = k then q # quantities_on k data else quantities_on k data)"
      using Some by (simp add: quantities_on_def parseable_records_def)
    show ?thesis
      unfolding step qs Cons
      by (simp add: update_conv' split: option.splits)
  qed
qed

lemma aggregate_by_date_entry:
  "map_of (aggregate_by_date data) k =
     (case quantities_on k data of
        [] \<Rightarrow> None
      | q # qs \<Rightarrow> Some (foldl (+) q qs))"
  by (simp add: aggregate_by_date_def aggregate_loop_entry)



section \<open>The vested-stocks scanner: boundaries and skipped lines\<close>


lemma vested_loop_stop:
  assumes "str_in ''ESPP'' m" and "\<not> is_vested_start m"
  shows "vested_loop ins hc acc (pre @ m # post) = vested_loop ins hc acc pre"
  using assms
  by (induction pre arbitrary: ins hc acc) (simp_all split: option.splits)

lemma vested_loop_idle:
  assumes "\<forall>l \<in> set pre. \<not> is_vested_start l"
  shows "vested_loop False hc [] pre = []"
  using assms
  by (induction pre arbitrary: hc) simp_all

text \<open>
  Claim C10. When a line that contains ESPP comes before every line that is a
  vested-stocks start marker, the scanner stops there with nothing extracted: the
  result is the empty list, whatever follows, a well-formed vested-stocks section
  included.
\<close>

theorem vested_espp_before_start:
  assumes "split_lines text = pre @ m # post"
    and "str_in ''ESPP'' m"
    and "\<forall>l \<in> set (pre @ [m]). \<not> is_vested_start l"
  shows "extract_vested_stocks_from_text text = []"
proof -
  have "\<not> is_vested_start m" using assms(3) by simp
  then have "vested_loop False 0 [] (pre @ m # post) = vested_loop False 0 [] pre"
    using assms(2) by (simp add: vested_loop_stop)
  also have "\<dots> = []" using assms(3) by (simp add: vested_loop_idle)
  finally show ?thesis by (simp add: extract_vested_stocks_from_text_def assms(1))
qed

text \<open>
  The ESPP marker on the second line, before a complete vested-stocks section:
  nothing is extracted.
\<close>

theorem vested_espp_before_start_witness:
  "split_lines espp_first_text =
     [''Salary certificate''] @ ''ESPP (Employee Stock Purchase Plan)'' #
     [''Vested Stocks 2024'', ''Award Date Award ID Date Price'',
      ''01.03.2022 AB123 15.03.2024 10.00 1500.00 150'']
   \<and> str_in ''ESPP'' ''ESPP (Employee Stock Purchase Plan)''
   \<and> \<not> is_vested_start ''Salary certificate''
   \<and> \<not> is_vested_start ''ESPP (Employee Stock Purchase Plan)''
   \<and> is_vested_start ''Vested Stocks 2024''
   \<and> extract_vested_stocks_from_text espp_first_text = []"
proof -
  have a: "split_lines espp_first_text =
     [''Salary certificate''] @ ''ESPP (Employee Stock Purchase Plan)'' #
     [''Vested Stocks 2024'', ''Award Date Award ID Date Price'',
      ''01.03.2022 AB123 15.03.2024 10.00 1500.00 150'']"
    by code_simp
  have b: "str_in ''ESPP'' ''ESPP (Employee Stock Purchase Plan)''" by code_simp
  have c1: "\<not> is_vested_start ''Salary certificate''" by code_simp
  have c2: "\<not> is_vested_start ''ESPP (Employee Stock Purchase Plan)''" by code_simp
  have c: "\<forall>l \<in> set ([''Salary certificate''] @ [''ESPP (Employee Stock Purchase Plan)'']).
      \<not> is_vested_start l"
    using c1 c2 by simp
  have d: "is_vested_start ''Vested Stocks 2024''" by code_simp
  from vested_espp_before_start [OF a b c] a b c1 c2 d show ?thesis by blast
qed

lemma vested_loop_insert:
  assumes skip: "\<And>hc acc rest. vested_loop True hc acc (line # rest) = vested_loop True hc acc rest"
    and active: "ins \<or> (\<exists>l \<in> set pre. is_vested_start l) \<or>
       (\<forall>hc acc rest. vested_loop False hc acc (line # rest) = vested_loop False hc acc rest)"
  shows "vested_loop ins hc acc (pre @ line # post) = vested_loop ins hc acc (pre @ post)"
  using active
proof (induction pre arbitrary: ins hc acc)
  case Nil
  then show ?case using skip by (cases ins) auto
next
  case (Cons l pre)
  show ?case
  proof (cases "is_vested_start l")
    case True
    then show ?thesis using Cons.IH [of True] by simp
  next
    case False
    then have "ins \<or> (\<exists>l \<in> set pre. is_vested_start l) \<or>
       (\<forall>hc acc rest. vested_loop False hc acc (line # rest) = vested_loop False hc acc rest)"
      using Cons.prems by auto
    then have "vested_loop ins h a (pre @ line # post) = vested_loop ins h a (pre @ post)" for h a
      by (rule Cons.IH)
    then show ?thesis using False by (cases ins) (simp_all split: option.splits)
  qed
qed





lemma set_dropWhile_keep: "x \<in> set xs \<Longrightarrow> \<not> P x \<Longrightarrow> x \<in> set (dropWhile P xs)"
  by (induction xs) auto

lemma in_strip: "c \<in> set s \<Longrightarrow> \<not> isspace c \<Longrightarrow> c \<in> set (strip s)"
  by (simp add: strip_def set_dropWhile_keep)

lemma replace_empty: "replace old [] s = filter (\<lambda>c. c \<noteq> old) s"
  by (induction s) (simp_all add: replace_def)

lemma str_in_set: "str_in sub s \<Longrightarrow> set sub \<subseteq> set s"
proof (induction s)
  case Nil
  then show ?case by simp
next
  case (Cons a s)
  from Cons.prems have "prefix sub (a # s) \<or> str_in sub s" by simp
  then show ?case
  proof
    assume "prefix sub (a # s)"
    then show ?thesis by (rule set_mono_prefix)
  next
    assume "str_in sub s"
    then have "set sub \<subseteq> set s" by (rule Cons.IH)
    then show ?thesis by auto
  qed
qed

lemma is_total_line_iff:
  "is_total_line line \<longleftrightarrow>
     list_all isdigit (filter (\<lambda>c. c \<notin> set [apostrophe, CHR ''.'', CHR '' '']) (strip line)) \<and>
     filter (\<lambda>c. c \<notin> set [apostrophe, CHR ''.'', CHR '' '']) (strip line) \<noteq> []"
proof -
  have "replace (CHR '' '') [] (replace apostrophe [] (replace (CHR ''.'') [] (strip line)))
      = filter (\<lambda>c. c \<notin> set [apostrophe, CHR ''.'', CHR '' '']) (strip line)"
    by (auto simp: replace_empty intro: filter_cong)
  then show ?thesis by (auto simp: is_total_line_def str_isdigit_def)
qed

lemma total_line_chars:
  assumes "is_total_line line" and "c \<in> set line"
  shows "isspace c \<or> isdigit c \<or> c = apostrophe \<or> c = CHR ''.''"
proof (rule ccontr)
  assume n: "\<not> ?thesis"
  then have "c \<in> set (strip line)" using assms(2) by (simp add: in_strip)
  moreover have "c \<noteq> CHR '' ''" using n by (auto simp: isspace_def)
  ultimately have "c \<in> set (filter (\<lambda>c. c \<notin> set [apostrophe, CHR ''.'', CHR '' '']) (strip line))"
    using n by simp
  then have "isdigit c" using assms(1) unfolding is_total_line_iff list_all_iff by blast
  then show False using n by simp
qed

lemma total_line_no_substring:
  assumes "is_total_line line" and "c \<in> set sub"
    and "\<not> isspace c" "\<not> isdigit c" "c \<noteq> apostrophe" "c \<noteq> CHR ''.''"
  shows "\<not> str_in sub line"
  using assms total_line_chars [of line c] str_in_set [of sub line] by blast

lemma total_line_skip:
  assumes "is_total_line line"
  shows "vested_loop ins hc acc (line # rest) = vested_loop ins hc acc rest"
proof -
  have "\<not> str_in ''Vested Stocks'' line"
    by (rule total_line_no_substring [OF assms, of "CHR ''V''"])
       (simp_all add: isspace_def isdigit_def apostrophe_def)
  moreover have "\<not> str_in ''ESPP'' line"
    by (rule total_line_no_substring [OF assms, of "CHR ''E''"])
       (simp_all add: isspace_def isdigit_def apostrophe_def)
  moreover have "\<not> str_in ''Award'' line"
    by (rule total_line_no_substring [OF assms, of "CHR ''A''"])
       (simp_all add: isspace_def isdigit_def apostrophe_def)
  moreover have "\<not> str_in ''Date Date Price'' line"
    by (rule total_line_no_substring [OF assms, of "CHR ''D''"])
       (simp_all add: isspace_def isdigit_def apostrophe_def)
  ultimately show ?thesis
    using assms by (simp add: is_vested_start_def is_vested_header_def)
qed

lemma digit_survives:
  assumes "c \<in> set line" and "isdigit c"
  shows "filter (\<lambda>c. c \<notin> set [apostrophe, CHR ''.'', CHR '' '']) (strip line) \<noteq> []"
proof -
  have "\<not> isspace c" using assms(2) by (auto simp: isdigit_def isspace_def Let_def)
  then have "c \<in> set (strip line)" using assms(1) by (simp add: in_strip)
  moreover have "c \<notin> set [apostrophe, CHR ''.'', CHR '' '']"
    using assms(2) by (auto simp: isdigit_def apostrophe_def)
  ultimately have "c \<in> set (filter (\<lambda>c. c \<notin> set [apostrophe, CHR ''.'', CHR '' '']) (strip line))"
    by simp
  then show ?thesis by (metis empty_iff empty_set)
qed

text \<open>
  Claim C9, as amended. A line that has at least one digit and that is digits only
  once apostrophes, points and spaces are removed (the comma is not among the
  separators of this check) passes the total-line check of the scanner, and the
  scanner extracts the same records with the line as without it, wherever it stands:
  the line is noise and gives no record.
\<close>

theorem numeric_total_line_is_noise:
  assumes "split_lines text = pre @ post"
    and "split_lines text' = pre @ line # post"
    and "reduces_to_digits [apostrophe, CHR ''.'', CHR '' ''] line"
    and "\<exists>c \<in> set line. isdigit c"
  shows "is_total_line line \<and>
         extract_vested_stocks_from_text text' = extract_vested_stocks_from_text text"
proof -
  have t: "is_total_line line"
    using assms(3,4) digit_survives [of _ line]
    unfolding is_total_line_iff reduces_to_digits_def by blast
  then have "vested_loop i hc acc (line # rest) = vested_loop i hc acc rest" for i hc acc rest
    by (rule total_line_skip)
  then have "vested_loop False 0 [] (pre @ line # post) = vested_loop False 0 [] (pre @ post)"
    by (intro vested_loop_insert) auto
  then show ?thesis
    using t by (simp add: extract_vested_stocks_from_text_def assms(1,2))
qed

text \<open>
  A total line with an apostrophe as thousands separator, between the two rows of a
  section: it passes the check, and the two rows are what is extracted.
\<close>

theorem numeric_total_line_is_noise_witness:
  "reduces_to_digits [apostrophe, CHR ''.'', CHR '' ''] swiss_total_line
   \<and> isdigit (CHR ''1'') \<and> CHR ''1'' \<in> set swiss_total_line
   \<and> is_total_line swiss_total_line
   \<and> extract_vested_stocks_from_text swiss_total_text =
     [[(''Vest Date'', ''15.03.2024''), (''Shares'', ''150'')],
      [(''Vest Date'', ''15.06.2024''), (''Shares'', ''250'')]]"
proof -
  have r: "extract_vested_stocks_from_text two_rows_text =
     [[(''Vest Date'', ''15.03.2024''), (''Shares'', ''150'')],
      [(''Vest Date'', ''15.06.2024''), (''Shares'', ''250'')]]"
    by code_simp
  have a: "split_lines two_rows_text = section_top @ section_bottom" by code_simp
  have b: "split_lines swiss_total_text = section_top @ swiss_total_line # section_bottom"
    by code_simp
  have c: "reduces_to_digits [apostrophe, CHR ''.'', CHR '' ''] swiss_total_line" by code_simp
  have d1: "isdigit (CHR ''1'')" by code_simp
  have d2: "CHR ''1'' \<in> set swiss_total_line" by (simp add: swiss_total_line_def)
  have d: "\<exists>c \<in> set swiss_total_line. isdigit c" using d1 d2 by blast
  from numeric_total_line_is_noise [OF a b c d] r c d1 d2 show ?thesis by simp
qed

text \<open>
  With the comma among the separators the statement fails. A line of six tokens with
  commas, and a line of six tokens made of separators alone, are digits only once
  commas, apostrophes, points and spaces are removed; in an active section each of
  them gives a record.
\<close>

theorem comma_total_line_counterexample:
  "reduces_to_digits [CHR '','', apostrophe, CHR ''.'', CHR '' ''] comma_total_line
   \<and> vested_loop True 0 [] [comma_total_line] = [[(''Vest Date'', ''1.2.3''), (''Shares'', ''6'')]]
   \<and> reduces_to_digits [CHR '','', apostrophe, CHR ''.'', CHR '' ''] separators_only_line
   \<and> length (vested_loop True 0 [] [separators_only_line]) = 1"
  by code_simp

section \<open>Where the sections end\<close>






section \<open>A failure of the PDF library\<close>

lemma table_pages_loop_failure:
  "first_page_failure pages = Some e \<Longrightarrow> table_pages_loop acc pages = Inl e"
  by (induction pages arbitrary: acc) (auto split: sum.splits option.splits)

lemma all_text_loop_failure:
  "first_page_failure pages = Some e \<Longrightarrow> all_text_loop acc pages = Inl e"
  by (induction pages arbitrary: acc) (auto split: sum.splits option.splits)

text \<open>
  Claim C4, as amended. When the PDF library raises while an existing file is opened
  or one of its pages is read, \<open>extract_table_from_pdf\<close> and \<open>extract_vested_data\<close>
  let that exception out unchanged; \<open>read_sold_shares\<close> and \<open>read_vested_data\<close> catch
  it and return 0.0 and (0.0, 0.0).
\<close>

theorem collaborator_failure:
  assumes "pdf_failure pdf_file = Some e"
  shows "extract_table_from_pdf pdf_file = Inl e \<and>
         extract_vested_data pdf_file = Inl e \<and>
         read_sold_shares True pdf_file = Inr 0 \<and>
         read_vested_data True pdf_file = Inr (0, 0)"
proof -
  have a: "extract_table_from_pdf pdf_file = Inl e"
    using assms
    by (auto simp: pdf_failure_def extract_table_from_pdf_def table_pages_loop_failure
        split: sum.splits)
  have b: "extract_vested_data pdf_file = Inl e"
    using assms
    by (auto simp: pdf_failure_def extract_vested_data_def all_text_loop_failure
        split: sum.splits)
  show ?thesis
    by (simp add: a b read_sold_shares_def sold_shares_try_def read_vested_data_def
        vested_data_try_def)
qed

text \<open>A file whose first page holds a sale line and whose second page cannot be read.\<close>

theorem collaborator_failure_witness:
  "pdf_failure second_page_fails = Some (PdfError ''page 2'') \<and>
   extract_table_from_pdf second_page_fails = Inl (PdfError ''page 2'') \<and>
   extract_vested_data second_page_fails = Inl (PdfError ''page 2'') \<and>
   read_sold_shares True second_page_fails = Inr 0 \<and>
   read_vested_data True second_page_fails = Inr (0, 0)"
proof -
  have h: "pdf_failure second_page_fails = Some (PdfError ''page 2'')"
    by (simp add: pdf_failure_def second_page_fails_def)
  from collaborator_failure [OF h] h show ?thesis by simp
qed

text \<open>
  The failure is not propagated out of the two reading operations: for a file that
  cannot be opened they return their zero results, not the exception.
\<close>

theorem read_functions_mask_failure_counterexample:
  "pdf_failure cannot_open = Some (PdfError ''cannot open'') \<and>
   read_sold_shares True cannot_open = Inr 0 \<and>
   read_sold_shares True cannot_open \<noteq> Inl (PdfError ''cannot open'') \<and>
   read_vested_data True cannot_open = Inr (0, 0) \<and>
   read_vested_data True cannot_open \<noteq> Inl (PdfError ''cannot open'')"
  by (simp add: cannot_open_def pdf_failure_def read_sold_shares_def sold_shares_try_def
      read_vested_data_def vested_data_try_def extract_table_from_pdf_def
      extract_vested_data_def)

section \<open>The order of the displayed aggregate\<close>

text \<open>
  The rows of \<open>display_results\<close> are the entries of the aggregate, none left out, in
  the order of their sort keys; so of two entries the one with the smaller key comes
  first, and entries with equal keys keep the order of the dict.
\<close>

lemma sorted_dates_entries:
  "set (sorted_dates data) = set (aggregate_by_date data) \<and>
   length (sorted_dates data) = length (aggregate_by_date data)"
  by (simp add: sorted_dates_def)

lemma sorted_dates_sorted:
  "sorted (map (\<lambda>x. parse_date (fst x)) (sorted_dates data))"
  by (simp add: sorted_dates_def)

lemma sorted_dates_chronological:
  assumes "i < length (sorted_dates data)" and "j < length (sorted_dates data)"
    and "parse_date (fst (sorted_dates data ! i)) < parse_date (fst (sorted_dates data ! j))"
  shows "i < j"
proof (rule ccontr)
  assume "\<not> i < j"
  then have "j \<le> i" by simp
  then have "map (\<lambda>x. parse_date (fst x)) (sorted_dates data) ! j
      \<le> map (\<lambda>x. parse_date (fst x)) (sorted_dates data) ! i"
    using assms(1) sorted_dates_sorted [of data] by (simp add: sorted_iff_nth_mono del: nth_map)
  then show False using assms by simp
qed

text \<open>
  Two entries whose keys parse as dates are therefore in the order of their dates, and
  an entry whose key does not parse comes before every entry whose date is after
  1 January 1900, the key that \<open>parse_date\<close> gives it.
\<close>

lemma parseable_dates_in_order:
  assumes "i < length (sorted_dates data)" and "j < length (sorted_dates data)"
    and "strptime_b_d_Y (fst (sorted_dates data ! i)) = Some d"
    and "strptime_b_d_Y (fst (sorted_dates data ! j)) = Some d'"
    and "d < d'"
  shows "i < j"
  using assms by (intro sorted_dates_chronological [of i data j]) (simp_all add: parse_date_def)

lemma unparseable_before_later_dates:
  assumes "i < length (sorted_dates data)" and "j < length (sorted_dates data)"
    and "strptime_b_d_Y (fst (sorted_dates data ! i)) = None"
    and "strptime_b_d_Y (fst (sorted_dates data ! j)) = Some d'"
    and "(1900, 1, 1) < d'"
  shows "i < j"
  using assms by (intro sorted_dates_chronological [of i data j]) (simp_all add: parse_date_def)

text \<open>
  Claim C6, at an input where it fails. The text has a sale of 1 January 1800 and a
  sale whose date does not parse. The first key parses to a date before the year 1900,
  the second gets the key 1 January 1900, and the entry of the unparseable key is
  displayed after the entry of the parseable one.
\<close>

theorem early_date_sorts_before_unparseable:
  "extract_transactions_from_text unsorted_sales_text =
     [[(''Date sold or transferred'', ''Jan-01-1800''), (''Quantity'', ''1.0'')],
      [(''Date sold or transferred'', ''Foo-01-2024''), (''Quantity'', ''2.0'')]]
   \<and> strptime_b_d_Y ''Jan-01-1800'' = Some (1800, 1, 1)
   \<and> strptime_b_d_Y ''Foo-01-2024'' = None
   \<and> sorted_dates (extract_transactions_from_text unsorted_sales_text) =
     [(''Jan-01-1800'', 1), (''Foo-01-2024'', 2)]"
  by code_simp

end
